theory Spec2Isabelle
  imports Complex_Main
begin

section \<open>The halo model of CCL: \<^verbatim>\<open>src/ccl_halomod.c\<close>\<close>

text \<open>
  The file computes the halo-model matter power spectrum: the Fourier transform of the NFW
  profile (\<^verbatim>\<open>u_nfw_c\<close>), the concentration-mass relation
  (\<^verbatim>\<open>ccl_halo_concentration\<close>), the window function, the one-halo and two-halo mass
  integrals (GSL's adaptive quadrature over log10 of the halo mass) and the three public
  routines built from them. Every C function below is embedded under its own name, statement
  by statement.
\<close>

subsection \<open>Doubles\<close>

text \<open>
  A C \<^verbatim>\<open>double\<close> is a finite number, one of the two infinities, or NaN. Finite doubles
  are idealised as reals: rounding, overflow and the sign of zero are not modelled (a zero
  divisor counts as \<open>+0\<close>). What is kept is what the control flow of the file depends on:
  NaN is absorbing in arithmetic, and NaN compares unequal to everything, itself included
  (\<^verbatim>\<open>x != x\<close> is true for NaN). The general theorems below use of this arithmetic only
  the comparisons, that NaN is absorbing and that addition commutes; exact values appear in
  the examples alone.
\<close>

datatype double = Fin real | PInf | NInf | NaN

definition deq :: "double \<Rightarrow> double \<Rightarrow> bool" where
  \<comment> \<open>the C comparison \<^verbatim>\<open>x == y\<close>\<close>
  "deq x y = (if x = NaN \<or> y = NaN then False else x = y)"

definition dne :: "double \<Rightarrow> double \<Rightarrow> bool" where
  \<comment> \<open>the C comparison \<^verbatim>\<open>x != y\<close>\<close>
  "dne x y = (\<not> deq x y)"

fun dneg :: "double \<Rightarrow> double" where
  "dneg (Fin x) = Fin (- x)"
| "dneg PInf = NInf"
| "dneg NInf = PInf"
| "dneg NaN = NaN"

fun dadd :: "double \<Rightarrow> double \<Rightarrow> double" where
  "dadd (Fin x) (Fin y) = Fin (x + y)"
| "dadd NaN _ = NaN"
| "dadd _ NaN = NaN"
| "dadd PInf NInf = NaN"
| "dadd NInf PInf = NaN"
| "dadd PInf _ = PInf"
| "dadd _ PInf = PInf"
| "dadd NInf _ = NInf"
| "dadd _ NInf = NInf"

definition dsub :: "double \<Rightarrow> double \<Rightarrow> double" where
  "dsub x y = dadd x (dneg y)"

fun dmul :: "double \<Rightarrow> double \<Rightarrow> double" where
  "dmul (Fin x) (Fin y) = Fin (x * y)"
| "dmul NaN _ = NaN"
| "dmul _ NaN = NaN"
| "dmul (Fin x) PInf = (if x = 0 then NaN else if 0 < x then PInf else NInf)"
| "dmul (Fin x) NInf = (if x = 0 then NaN else if 0 < x then NInf else PInf)"
| "dmul PInf (Fin y) = (if y = 0 then NaN else if 0 < y then PInf else NInf)"
| "dmul NInf (Fin y) = (if y = 0 then NaN else if 0 < y then NInf else PInf)"
| "dmul PInf PInf = PInf"
| "dmul PInf NInf = NInf"
| "dmul NInf PInf = NInf"
| "dmul NInf NInf = PInf"

fun ddiv :: "double \<Rightarrow> double \<Rightarrow> double" where
  "ddiv (Fin x) (Fin y) =
     (if y = 0 then (if x = 0 then NaN else if 0 < x then PInf else NInf) else Fin (x / y))"
| "ddiv NaN _ = NaN"
| "ddiv _ NaN = NaN"
| "ddiv (Fin x) PInf = Fin 0"
| "ddiv (Fin x) NInf = Fin 0"
| "ddiv PInf (Fin y) = (if 0 \<le> y then PInf else NInf)"
| "ddiv NInf (Fin y) = (if 0 \<le> y then NInf else PInf)"
| "ddiv PInf PInf = NaN"
| "ddiv PInf NInf = NaN"
| "ddiv NInf PInf = NaN"
| "ddiv NInf NInf = NaN"

subsection \<open>Status codes, labels and the mutable state\<close>

text \<open>
  The error codes are macros of \<^verbatim>\<open>ccl_error.h\<close>, which is not among the sources: they are
  taken as distinct non-zero codes. \<open>CCL_ERROR_OTHER n\<close> stands for the codes the
  collaborators use. An \<^verbatim>\<open>int\<close> status is \<open>None\<close> when it is 0 and \<open>Some e\<close> when it
  holds the code \<open>e\<close>.
\<close>

datatype ccl_error =
    CCL_ERROR_CONC_DV
  | CCL_ERROR_HALOCONC
  | CCL_ERROR_HALOWIN
  | CCL_ERROR_ONE_HALO_INT
  | CCL_ERROR_TWO_HALO_INT
  | CCL_ERROR_OTHER nat

text \<open>
  The enumerations of \<^verbatim>\<open>ccl_halomod.h\<close> and \<^verbatim>\<open>ccl_background.h\<close>. A C enum variable can
  hold any integer, so each type has a constructor for the values outside the named ones
  (the \<^verbatim>\<open>default:\<close> branch of a \<^verbatim>\<open>switch\<close>).
\<close>

datatype ccl_conc_label =
    ccl_bhattacharya2011
  | ccl_duffy2008_virial
  | ccl_constant_concentration
  | ccl_conc_unknown int

datatype ccl_win_label = ccl_nfw | ccl_win_unknown int

datatype ccl_species_x_label = ccl_species_m_label | ccl_species_other int

text \<open>
  The calls the file makes and the errors it raises are recorded in a history (a ghost
  variable: the C code has no such list). A \<open>Call_\<close> event carries the arguments of the
  call after the cosmology; \<open>Raised e\<close> marks an assignment \<^verbatim>\<open>*status = e\<close> of this file.
\<close>

datatype event =
    Call_Dv_BryanNorman double
  | Call_r_delta double double double
  | Call_growth_factor double
  | Call_sigmaM double double
  | Call_rho_x double ccl_species_x_label int
  | Call_massfunc double double double
  | Call_halo_bias double double double
  | Call_linear_matter_power double double
  | Call_halo_concentration double double double ccl_conc_label
  | Call_window_function double double double double ccl_win_label
  | Raised ccl_error

text \<open>
  The state a function of the file can change: the \<^verbatim>\<open>int\<close> its \<^verbatim>\<open>status\<close> pointer points
  to, and \<^verbatim>\<open>cosmo->status_message\<close>; \<open>trace\<close> is the history.
\<close>

record hm_state =
  status :: "ccl_error option"
  status_message :: string
  trace :: "event list"

subsection \<open>What the file is linked against\<close>

text \<open>
  The collaborators (\<^verbatim>\<open>ccl_background.h\<close>, \<^verbatim>\<open>ccl_power.h\<close>, \<^verbatim>\<open>ccl_massfunc.h\<close>), the
  functions of \<^verbatim>\<open>math.h\<close> and GSL, and the macros \<^verbatim>\<open>HM_MMIN\<close>, \<^verbatim>\<open>HM_MMAX\<close> are not
  among the sources: they are parameters. A collaborator is a function of the cosmology and
  its arguments; it returns a double and may raise an error of its own, that is write a
  non-zero code to \<^verbatim>\<open>*status\<close> and a message to the cosmology. The record below is a
  cosmology together with the library: \<open>params_h\<close> is \<^verbatim>\<open>cosmo->params.h\<close>, and each
  collaborator is already applied to the cosmology.
\<close>

type_synonym cres = "double \<times> (ccl_error \<times> string) option"

text \<open>
  \<^verbatim>\<open>gsl_integration_qag\<close> evaluates the integrand at points of its choice, each chosen from
  the values seen so far, and after finitely many evaluations returns its status and the
  result. That is a tree: \<open>QReturn qagstatus result\<close>, or \<open>QEval x cont\<close>, which
  evaluates the integrand at \<open>x\<close> and goes on with \<open>cont y\<close> for the value \<open>y\<close> it got.
  The tolerances, the subdivision limit and the rule (\<^verbatim>\<open>HM_EPSABS\<close>, \<^verbatim>\<open>HM_EPSREL\<close>,
  \<^verbatim>\<open>HM_LIMIT\<close>, \<^verbatim>\<open>HM_INT_METHOD\<close>) are fixed macros, so the parameter takes the two
  bounds only.

  The last field is a property of the compiler: C leaves the order of the two calls in
  \<^verbatim>\<open>f(...) + g(...)\<close> open, and \<open>left_operand_first\<close> says which one the compiled code
  makes first.
\<close>

datatype qag_run = QReturn int double | QEval double "double \<Rightarrow> qag_run"

record env =
  params_h :: double
  HM_MMIN :: double
  HM_MMAX :: double
  Dv_BryanNorman :: "double \<Rightarrow> cres"
  r_delta :: "double \<Rightarrow> double \<Rightarrow> double \<Rightarrow> cres"
  ccl_growth_factor :: "double \<Rightarrow> cres"
  ccl_sigmaM :: "double \<Rightarrow> double \<Rightarrow> cres"
  ccl_rho_x :: "double \<Rightarrow> ccl_species_x_label \<Rightarrow> int \<Rightarrow> cres"
  ccl_massfunc :: "double \<Rightarrow> double \<Rightarrow> double \<Rightarrow> cres"
  ccl_halo_bias :: "double \<Rightarrow> double \<Rightarrow> double \<Rightarrow> cres"
  ccl_linear_matter_power :: "double \<Rightarrow> double \<Rightarrow> cres"
  libm_sin :: "double \<Rightarrow> double"
  libm_cos :: "double \<Rightarrow> double"
  libm_log :: "double \<Rightarrow> double"
  libm_log10 :: "double \<Rightarrow> double"
  libm_pow :: "double \<Rightarrow> double \<Rightarrow> double"
  gsl_sf_Si :: "double \<Rightarrow> double"
  gsl_sf_Ci :: "double \<Rightarrow> double"
  gsl_integration_qag :: "double \<Rightarrow> double \<Rightarrow> qag_run"
  left_operand_first :: bool

definition GSL_SUCCESS :: int where
  "GSL_SUCCESS = 0"

definition record_event :: "event \<Rightarrow> hm_state \<Rightarrow> hm_state" where
  "record_event e s = s\<lparr>trace := trace s @ [e]\<rparr>"

fun apply_raise :: "(ccl_error \<times> string) option \<Rightarrow> hm_state \<Rightarrow> hm_state" where
  "apply_raise None s = s"
| "apply_raise (Some (e, m)) s = s\<lparr>status := Some e, status_message := m\<rparr>"

definition collab :: "event \<Rightarrow> cres \<Rightarrow> hm_state \<Rightarrow> double \<times> hm_state" where
  \<comment> \<open>a call of a collaborator: its value, and its error (if any) written to the state\<close>
  "collab e r s = (fst r, apply_raise (snd r) (record_event e s))"

definition set_status :: "ccl_error \<Rightarrow> hm_state \<Rightarrow> hm_state" where
  \<comment> \<open>\<^verbatim>\<open>*status = e;\<close>\<close>
  "set_status e s = record_event (Raised e) (s\<lparr>status := Some e\<rparr>)"

definition set_message :: "string \<Rightarrow> hm_state \<Rightarrow> hm_state" where
  \<comment> \<open>\<^verbatim>\<open>strcpy(cosmo->status_message, m);\<close> and \<^verbatim>\<open>sprintf(cosmo->status_message, m);\<close>\<close>
  "set_message m s = s\<lparr>status_message := m\<rparr>"

text \<open>
  Modelled from the spec: \<^verbatim>\<open>ccl_raise_exception\<close> (\<^verbatim>\<open>ccl_error.c\<close>, not among the sources).
  The spec has a routine that meets an unknown selector signal NaN alongside the failure, so
  the call reports the error outside the state modelled here and returns.
\<close>

definition ccl_raise_exception :: "ccl_error option \<Rightarrow> string \<Rightarrow> hm_state \<Rightarrow> hm_state" where
  "ccl_raise_exception err msg s = s"

text \<open>
  Modelled from the spec: \<^verbatim>\<open>ccl_raise_gsl_warning\<close> (\<^verbatim>\<open>ccl_error.c\<close>, not among the
  sources). The spec has a failed quadrature end in IntegrationFailure and NaN, so the
  warning is reported outside the state modelled here and the call returns.
\<close>

definition ccl_raise_gsl_warning :: "int \<Rightarrow> string \<Rightarrow> hm_state \<Rightarrow> hm_state" where
  "ccl_raise_gsl_warning gslstatus msg s = s"

subsection \<open>The messages\<close>

definition msg_bhattacharya :: string where
  "msg_bhattacharya =
     ''ccl_halomod.c: halo_concentration(): Bhattacharya (2011) concentration relation only valid for Delta_v = 200 ''
     @ [CHR 0x0A]"

definition msg_duffy :: string where
  "msg_duffy =
     ''ccl_halomod.c: halo_concentration(): Duffy (2008) virial concentration called with non-virial Delta_v''
     @ [CHR 0x0A]"

definition msg_one_halo :: string where
  "msg_one_halo = ''ccl_halomod.c: one_halo_integral(): Integration failure'' @ [CHR 0x0A]"

definition msg_two_halo :: string where
  "msg_two_halo = ''ccl_halomod.c: two_halo_integral(): Integration failure'' @ [CHR 0x0A]"

subsection \<open>The functions of the file\<close>

text \<open>
  Every function takes the environment, its C arguments after \<^verbatim>\<open>cosmo\<close> and the state,
  and returns its C return value with the state it leaves. Statements run in the order of
  the source.
\<close>

definition u_nfw_c ::
  "env \<Rightarrow> double \<Rightarrow> double \<Rightarrow> double \<Rightarrow> double \<Rightarrow> hm_state \<Rightarrow> double \<times> hm_state" where
  "u_nfw_c E c halomass k a s =
     (let (Delta_v, s1) = collab (Call_Dv_BryanNorman a) (Dv_BryanNorman E a) s in
      if deq k (Fin 0) then (Fin 1, s1)
      else
        let (rv, s2) = collab (Call_r_delta halomass a Delta_v) (r_delta E halomass a Delta_v) s1;
            rs = ddiv rv c;
            ks = dmul k rs;
            f1 = dmul (libm_sin E ks)
                   (dsub (gsl_sf_Si E (dmul ks (dadd (Fin 1) c))) (gsl_sf_Si E ks));
            f2 = dmul (libm_cos E ks)
                   (dsub (gsl_sf_Ci E (dmul ks (dadd (Fin 1) c))) (gsl_sf_Ci E ks));
            f3 = ddiv (libm_sin E (dmul c ks)) (dmul ks (dadd (Fin 1) c));
            fc = dsub (libm_log E (dadd (Fin 1) c)) (ddiv c (dadd (Fin 1) c))
        in (ddiv (dsub (dadd f1 f2) f3) fc, s2))"

definition ccl_halo_concentration ::
  "env \<Rightarrow> double \<Rightarrow> double \<Rightarrow> double \<Rightarrow> ccl_conc_label \<Rightarrow> hm_state \<Rightarrow> double \<times> hm_state" where
  "ccl_halo_concentration E halomass a odelta label s0 =
     (let s = record_event (Call_halo_concentration halomass a odelta label) s0 in
      case label of
        ccl_bhattacharya2011 \<Rightarrow>
          if dne odelta (Fin 200) then
            (NaN, set_message msg_bhattacharya (set_status CCL_ERROR_CONC_DV s))
          else
            let (gz, s1) = collab (Call_growth_factor a) (ccl_growth_factor E a) s;
                (g0, s2) = collab (Call_growth_factor (Fin 1)) (ccl_growth_factor E (Fin 1)) s1;
                delta_c = Fin 1.686;
                (sigma, s3) = collab (Call_sigmaM halomass a) (ccl_sigmaM E halomass a) s2;
                nu = ddiv delta_c sigma
            in (dmul (dmul (Fin 9) (libm_pow E nu (Fin (- 0.29))))
                  (libm_pow E (ddiv gz g0) (Fin 1.15)), s3)
      | ccl_duffy2008_virial \<Rightarrow>
          let (dv, s1) = collab (Call_Dv_BryanNorman a) (Dv_BryanNorman E a) s in
          if dne odelta dv then
            (NaN, set_message msg_duffy (set_status CCL_ERROR_CONC_DV s1))
          else
            let Mpiv = ddiv (Fin 2000000000000) (params_h E);
                A = Fin 7.85;
                B = Fin (- 0.081);
                C = Fin (- 0.71)
            in (dmul (dmul A (libm_pow E (ddiv halomass Mpiv) B)) (libm_pow E a (dneg C)), s1)
      | ccl_constant_concentration \<Rightarrow> (Fin 4, s)
      | ccl_conc_unknown n \<Rightarrow>
          (let s1 = set_status CCL_ERROR_HALOCONC s in
           (NaN, ccl_raise_exception (status s1)
              ''ccl_halomod.c: concentration-mass relation specified incorrectly'' s1)))"

definition window_function ::
  "env \<Rightarrow> double \<Rightarrow> double \<Rightarrow> double \<Rightarrow> double \<Rightarrow> ccl_win_label \<Rightarrow> hm_state
     \<Rightarrow> double \<times> hm_state" where
  "window_function E m k a odelta label s0 =
     (let s = record_event (Call_window_function m k a odelta label) s0 in
      case label of
        ccl_nfw \<Rightarrow>
          let (rho_matter, s1) =
                collab (Call_rho_x (Fin 1) ccl_species_m_label 1)
                  (ccl_rho_x E (Fin 1) ccl_species_m_label 1) s;
              (c, s2) = ccl_halo_concentration E m a odelta ccl_duffy2008_virial s1;
              (u, s3) = u_nfw_c E c m k a s2
          in (ddiv (dmul m u) rho_matter, s3)
      | ccl_win_unknown n \<Rightarrow>
          (let s1 = set_status CCL_ERROR_HALOWIN s in
           (NaN, ccl_raise_exception (status s1)
              ''ccl_halomod.c: Window function specified incorrectly'' s1)))"

definition one_halo_integrand ::
  "env \<Rightarrow> double \<Rightarrow> double \<Rightarrow> double \<Rightarrow> hm_state \<Rightarrow> double \<times> hm_state" where
  \<comment> \<open>\<open>k\<close> and \<open>a\<close> are the fields of the parameter structure, \<open>s\<close> holds the int that
      its \<^verbatim>\<open>status\<close> field points to\<close>
  "one_halo_integrand E k a log10mass s =
     (let halomass = libm_pow E (Fin 10) log10mass;
          (Delta_v, s1) = collab (Call_Dv_BryanNorman a) (Dv_BryanNorman E a) s;
          (wk, s2) = window_function E halomass k a Delta_v ccl_nfw s1;
          (dn_dlogM, s3) =
             collab (Call_massfunc halomass a Delta_v) (ccl_massfunc E halomass a Delta_v) s2
      in (dmul dn_dlogM (libm_pow E wk (Fin 2)), s3))"

definition two_halo_integrand ::
  "env \<Rightarrow> double \<Rightarrow> double \<Rightarrow> double \<Rightarrow> hm_state \<Rightarrow> double \<times> hm_state" where
  "two_halo_integrand E k a log10mass s =
     (let halomass = libm_pow E (Fin 10) log10mass;
          (Delta_v, s1) = collab (Call_Dv_BryanNorman a) (Dv_BryanNorman E a) s;
          (wk, s2) = window_function E halomass k a Delta_v ccl_nfw s1;
          (dn_dlogM, s3) =
             collab (Call_massfunc halomass a Delta_v) (ccl_massfunc E halomass a Delta_v) s2;
          (b, s4) =
             collab (Call_halo_bias halomass a Delta_v) (ccl_halo_bias E halomass a Delta_v) s3
      in (dmul (dmul b dn_dlogM) wk, s4))"

text \<open>
  The quadrature run against an integrand: each evaluation is a call of the integrand on the
  current state.
\<close>

primrec run_qag ::
  "qag_run \<Rightarrow> (double \<Rightarrow> hm_state \<Rightarrow> double \<times> hm_state) \<Rightarrow> hm_state
     \<Rightarrow> (int \<times> double) \<times> hm_state" where
  "run_qag (QReturn qagstatus res) F s = ((qagstatus, res), s)"
| "run_qag (QEval x cont) F s = (case F x s of (y, s') \<Rightarrow> run_qag (cont y) F s')"

text \<open>
  The integrals hand the integrand the address of a local \<^verbatim>\<open>int\<close> set to 0
  (\<^verbatim>\<open>ipar.status = &one_halo_integral_status\<close>), not the caller's \<^verbatim>\<open>status\<close>: the
  quadrature runs on the state with \<open>status := None\<close>, and afterwards the caller's status is
  back in place; the local is never read. The message and the history are the cosmology's
  and persist. The workspace is allocated and freed inside the call and is not modelled.
\<close>

definition one_halo_integral ::
  "env \<Rightarrow> double \<Rightarrow> double \<Rightarrow> hm_state \<Rightarrow> double \<times> hm_state" where
  "one_halo_integral E k a s =
     (let log10mmin = libm_log10 E (HM_MMIN E);
          log10mmax = libm_log10 E (HM_MMAX E);
          ((qagstatus, res), s1) =
             run_qag (gsl_integration_qag E log10mmin log10mmax) (one_halo_integrand E k a)
               (s\<lparr>status := None\<rparr>);
          s2 = s1\<lparr>status := status s\<rparr>
      in if qagstatus \<noteq> GSL_SUCCESS then
           (NaN, set_message msg_one_halo (set_status CCL_ERROR_ONE_HALO_INT
              (ccl_raise_gsl_warning qagstatus ''ccl_halomod.c: one_halo_integral():'' s2)))
         else (res, s2))"

definition two_halo_integral ::
  "env \<Rightarrow> double \<Rightarrow> double \<Rightarrow> hm_state \<Rightarrow> double \<times> hm_state" where
  "two_halo_integral E k a s =
     (let log10mmin = libm_log10 E (HM_MMIN E);
          log10mmax = libm_log10 E (HM_MMAX E);
          ((qagstatus, res), s1) =
             run_qag (gsl_integration_qag E log10mmin log10mmax) (two_halo_integrand E k a)
               (s\<lparr>status := None\<rparr>);
          s2 = s1\<lparr>status := status s\<rparr>
      in if qagstatus \<noteq> GSL_SUCCESS then
           (NaN, set_message msg_two_halo (set_status CCL_ERROR_TWO_HALO_INT
              (ccl_raise_gsl_warning qagstatus ''ccl_halomod.c: two_halo_integral():'' s2)))
         else (res, s2))"

definition ccl_twohalo_matter_power ::
  "env \<Rightarrow> double \<Rightarrow> double \<Rightarrow> hm_state \<Rightarrow> double \<times> hm_state" where
  "ccl_twohalo_matter_power E k a s =
     (let (I2h, s1) = two_halo_integral E k a s;
          (I0, s2) = two_halo_integral E (Fin 0) a s1;
          A = dsub (Fin 1) I0;
          (Delta_v, s3) = collab (Call_Dv_BryanNorman a) (Dv_BryanNorman E a) s2;
          (W1, s4) = window_function E (HM_MMIN E) k a Delta_v ccl_nfw s3;
          (W2, s5) = window_function E (HM_MMIN E) (Fin 0) a Delta_v ccl_nfw s4;
          A = ddiv (dmul A W1) W2;
          I2h = dadd I2h A;
          (plin, s6) = collab (Call_linear_matter_power k a) (ccl_linear_matter_power E k a) s5
      in (dmul (dmul plin I2h) I2h, s6))"

definition ccl_onehalo_matter_power ::
  "env \<Rightarrow> double \<Rightarrow> double \<Rightarrow> hm_state \<Rightarrow> double \<times> hm_state" where
  "ccl_onehalo_matter_power E k a s = one_halo_integral E k a s"

definition ccl_halomodel_matter_power ::
  "env \<Rightarrow> double \<Rightarrow> double \<Rightarrow> hm_state \<Rightarrow> double \<times> hm_state" where
  \<comment> \<open>the two operands of the sum are calls, made in the order the compiler chose\<close>
  "ccl_halomodel_matter_power E k a s =
     (if left_operand_first E then
        let (p2h, s1) = ccl_twohalo_matter_power E k a s;
            (p1h, s2) = ccl_onehalo_matter_power E k a s1
        in (dadd p2h p1h, s2)
      else
        let (p1h, s1) = ccl_onehalo_matter_power E k a s;
            (p2h, s2) = ccl_twohalo_matter_power E k a s1
        in (dadd p2h p1h, s2))"

subsection \<open>Notions used in the statements\<close>

text \<open>
  The three public routines, under one name each, so that a statement can range over them.
\<close>

datatype entry = One_halo | Two_halo | Halo_model

fun run_entry :: "entry \<Rightarrow> env \<Rightarrow> double \<Rightarrow> double \<Rightarrow> hm_state \<Rightarrow> double \<times> hm_state" where
  "run_entry One_halo E k a s = ccl_onehalo_matter_power E k a s"
| "run_entry Two_halo E k a s = ccl_twohalo_matter_power E k a s"
| "run_entry Halo_model E k a s = ccl_halomodel_matter_power E k a s"

definition clean :: hm_state where
  \<comment> \<open>a fresh call: status 0, no message, empty history\<close>
  "clean = \<lparr>status = None, status_message = [], trace = []\<rparr>"

definition new_events :: "hm_state \<Rightarrow> hm_state \<Rightarrow> event list" where
  \<comment> \<open>what a call that took \<open>s\<close> to \<open>s'\<close> added to the history\<close>
  "new_events s s' = drop (length (trace s)) (trace s')"

definition status_set :: "hm_state \<Rightarrow> bool" where
  "status_set s = (status s \<noteq> None)"

definition qag_outcome ::
  "env \<Rightarrow> (double \<Rightarrow> hm_state \<Rightarrow> double \<times> hm_state) \<Rightarrow> int \<times> double" where
  \<comment> \<open>the status and the result of the quadrature of an integrand over
      \<^verbatim>\<open>[log10(HM_MMIN), log10(HM_MMAX)]\<close>\<close>
  "qag_outcome E F =
     fst (run_qag (gsl_integration_qag E (libm_log10 E (HM_MMIN E)) (libm_log10 E (HM_MMAX E)))
            F clean)"

fun odelta_of :: "event \<Rightarrow> double option" where
  \<comment> \<open>the overdensity argument of a call that has one\<close>
  "odelta_of (Call_r_delta m a od) = Some od"
| "odelta_of (Call_massfunc m a od) = Some od"
| "odelta_of (Call_halo_bias m a od) = Some od"
| "odelta_of (Call_halo_concentration m a od lab) = Some od"
| "odelta_of (Call_window_function m k a od lab) = Some od"
| "odelta_of _ = None"

definition same_odelta :: "double \<Rightarrow> event \<Rightarrow> bool" where
  "same_odelta dv e = (case odelta_of e of None \<Rightarrow> True | Some od \<Rightarrow> od = dv)"

fun nfw_duffy_virial :: "double \<Rightarrow> double \<Rightarrow> event \<Rightarrow> bool" where
  \<comment> \<open>a window call is the NFW one, a concentration call the Duffy virial one, both at the
      overdensity \<open>dv\<close> and the scale factor \<open>a\<close>\<close>
  "nfw_duffy_virial dv a (Call_window_function m k a' od lab) =
     (lab = ccl_nfw \<and> od = dv \<and> a' = a)"
| "nfw_duffy_virial dv a (Call_halo_concentration m a' od lab) =
     (lab = ccl_duffy2008_virial \<and> od = dv \<and> a' = a)"
| "nfw_duffy_virial dv a _ = True"

definition quadrature_fails ::
  "env \<Rightarrow> (double \<Rightarrow> hm_state \<Rightarrow> double \<times> hm_state) \<Rightarrow> bool" where
  "quadrature_fails E F = (fst (qag_outcome E F) \<noteq> GSL_SUCCESS)"

fun no_selector_error :: "event \<Rightarrow> bool" where
  \<comment> \<open>the event is not one of the failures of the concentration model or of the window\<close>
  "no_selector_error (Raised e) =
     (e \<noteq> CCL_ERROR_CONC_DV \<and> e \<noteq> CCL_ERROR_HALOCONC \<and> e \<noteq> CCL_ERROR_HALOWIN)"
| "no_selector_error _ = True"

text \<open>Notions of the proofs: the value of a call, and histories that only grow.\<close>

definition val_of :: "(hm_state \<Rightarrow> double \<times> hm_state) \<Rightarrow> double" where
  "val_of f = fst (f clean)"

definition extends :: "(event \<Rightarrow> bool) \<Rightarrow> hm_state \<Rightarrow> hm_state \<Rightarrow> bool" where
  "extends P s s' = (\<exists>evs. trace s' = trace s @ evs \<and> list_all P evs)"

fun ev_ok :: "double \<Rightarrow> double \<Rightarrow> event \<Rightarrow> bool" where
  "ev_ok dv a (Call_r_delta m a' od) = (od = dv)"
| "ev_ok dv a (Call_massfunc m a' od) = (od = dv)"
| "ev_ok dv a (Call_halo_bias m a' od) = (od = dv)"
| "ev_ok dv a (Call_halo_concentration m a' od lab) =
     (od = dv \<and> lab = ccl_duffy2008_virial \<and> a' = a)"
| "ev_ok dv a (Call_window_function m k a' od lab) = (od = dv \<and> lab = ccl_nfw \<and> a' = a)"
| "ev_ok dv a (Raised e) = (e = CCL_ERROR_CONC_DV \<and> dv = NaN)"
| "ev_ok dv a _ = True"

definition ev_top :: "double \<Rightarrow> double \<Rightarrow> event \<Rightarrow> bool" where
  "ev_top dv a e =
     (ev_ok dv a e \<or> e = Raised CCL_ERROR_ONE_HALO_INT \<or> e = Raised CCL_ERROR_TWO_HALO_INT)"

subsection \<open>Example environments\<close>

text \<open>
  Small environments on which the functions can be run: constant collaborators, a matter
  density that varies with the scale factor (\<^verbatim>\<open>2 / (a * a * a)\<close>), the library functions
  tabulated at the points the examples reach, and a one-point (midpoint) quadrature.
  \<open>failing_qag\<close> evaluates the integrand once and reports \<^verbatim>\<open>GSL_EMAXITER\<close> (11).
\<close>

definition toy_log10 :: "double \<Rightarrow> double" where
  "toy_log10 x =
     (if x = Fin 10000000000 then Fin 10
      else if x = Fin 10000000000000000 then Fin 16 else NaN)"

definition toy_pow :: "double \<Rightarrow> double \<Rightarrow> double" where
  "toy_pow x y =
     (if y = Fin 2 then dmul x x
      else if x = Fin 10 \<and> y = Fin 13 then Fin 10000000000000 else Fin 1)"

definition midpoint_qag :: "double \<Rightarrow> double \<Rightarrow> qag_run" where
  "midpoint_qag lo hi =
     QEval (ddiv (dadd lo hi) (Fin 2)) (\<lambda>y. QReturn 0 (dmul y (dsub hi lo)))"

definition failing_qag :: "double \<Rightarrow> double \<Rightarrow> qag_run" where
  "failing_qag lo hi = QEval (ddiv (dadd lo hi) (Fin 2)) (\<lambda>y. QReturn 11 y)"

definition env0 :: env where
  "env0 = \<lparr>
     params_h = Fin 0.7,
     HM_MMIN = Fin 10000000000,
     HM_MMAX = Fin 10000000000000000,
     Dv_BryanNorman = (\<lambda>a. (Fin 178, None)),
     r_delta = (\<lambda>m a od. (Fin 1, None)),
     ccl_growth_factor = (\<lambda>a. (a, None)),
     ccl_sigmaM = (\<lambda>m a. (Fin 2, None)),
     ccl_rho_x = (\<lambda>a sp com. (ddiv (Fin 2) (dmul a (dmul a a)), None)),
     ccl_massfunc = (\<lambda>m a od. (Fin 3, None)),
     ccl_halo_bias = (\<lambda>m a od. (Fin 0.5, None)),
     ccl_linear_matter_power = (\<lambda>k a. (Fin 5, None)),
     libm_sin = (\<lambda>x. x),
     libm_cos = (\<lambda>x. Fin 1),
     libm_log = (\<lambda>x. x),
     libm_log10 = toy_log10,
     libm_pow = toy_pow,
     gsl_sf_Si = (\<lambda>x. x),
     gsl_sf_Ci = (\<lambda>x. x),
     gsl_integration_qag = midpoint_qag,
     left_operand_first = True \<rparr>"

definition env_fail :: env where
  \<comment> \<open>the quadrature fails, and so does the linear power spectrum\<close>
  "env_fail = env0\<lparr>
     gsl_integration_qag := failing_qag,
     ccl_linear_matter_power :=
       (\<lambda>k a. (NaN, Some (CCL_ERROR_OTHER 1, ''linear power failed''))) \<rparr>"

definition env_mf :: env where
  \<comment> \<open>the mass function fails\<close>
  "env_mf = env0\<lparr>
     ccl_massfunc := (\<lambda>m a od. (NaN, Some (CCL_ERROR_OTHER 2, ''mass function failed''))) \<rparr>"

definition env_nan :: env where
  \<comment> \<open>the virial overdensity is NaN\<close>
  "env_nan = env0\<lparr> Dv_BryanNorman := (\<lambda>a. (NaN, None)) \<rparr>"

section \<open>Lemmas\<close>

subsection \<open>Arithmetic of doubles\<close>

lemma dadd_comm: "dadd x y = dadd y x"
  by (cases x; cases y) auto

lemma dadd_NaN [simp]: "dadd x NaN = NaN" "dadd NaN x = NaN"
  by (cases x; simp)+

lemma dmul_NaN [simp]: "dmul x NaN = NaN" "dmul NaN x = NaN"
  by (cases x; simp)+

lemma ddiv_NaN [simp]: "ddiv x NaN = NaN" "ddiv NaN x = NaN"
  by (cases x; simp)+

lemma dsub_NaN [simp]: "dsub x NaN = NaN" "dsub NaN x = NaN"
  by (simp_all add: dsub_def)

lemma dne_self: "dne x x \<longleftrightarrow> x = NaN"
  by (simp add: dne_def deq_def)

lemma dne_iff: "dne x y \<longleftrightarrow> x \<noteq> y \<or> y = NaN"
  by (auto simp add: dne_def deq_def)

lemma deq_zero: "deq k (Fin 0) \<longleftrightarrow> k = Fin 0"
  by (auto simp add: deq_def)

subsection \<open>The value of a call does not depend on the state\<close>

lemma collab_fst: "fst (collab e r s) = fst r"
  by (simp add: collab_def)

lemma u_nfw_c_val: "fst (u_nfw_c E c m k a s) = val_of (u_nfw_c E c m k a)"
  by (simp add: u_nfw_c_def val_of_def Let_def split_def collab_fst)

lemma conc_val:
  "fst (ccl_halo_concentration E m a od l s) = val_of (ccl_halo_concentration E m a od l)"
  by (simp add: ccl_halo_concentration_def val_of_def Let_def split_def collab_fst
        split: ccl_conc_label.splits)

lemma window_val:
  "fst (window_function E m k a od l s) = val_of (window_function E m k a od l)"
  unfolding val_of_def window_function_def
  by (simp add: Let_def split_def collab_fst conc_val u_nfw_c_val split: ccl_win_label.splits)

lemma one_int_val:
  "fst (one_halo_integrand E k a l s) = val_of (one_halo_integrand E k a l)"
  unfolding val_of_def one_halo_integrand_def
  by (simp add: Let_def split_def collab_fst window_val)

lemma two_int_val:
  "fst (two_halo_integrand E k a l s) = val_of (two_halo_integrand E k a l)"
  unfolding val_of_def two_halo_integrand_def
  by (simp add: Let_def split_def collab_fst window_val)

lemma run_qag_val:
  assumes "\<And>x s. fst (F x s) = G x"
  shows "fst (run_qag q F s) = fst (run_qag q F s')"
proof (induction q arbitrary: s s')
  case (QReturn r v)
  show ?case by simp
next
  case (QEval x cont)
  have "fst (F x s) = fst (F x s')" using assms by simp
  then show ?case using QEval.IH by (simp add: split_def)
qed

lemma one_qag_any_state:
  "fst (run_qag (gsl_integration_qag E (libm_log10 E (HM_MMIN E)) (libm_log10 E (HM_MMAX E)))
          (one_halo_integrand E k a) s) = qag_outcome E (one_halo_integrand E k a)"
  unfolding qag_outcome_def by (rule run_qag_val [OF one_int_val])

lemma two_qag_any_state:
  "fst (run_qag (gsl_integration_qag E (libm_log10 E (HM_MMIN E)) (libm_log10 E (HM_MMAX E)))
          (two_halo_integrand E k a) s) = qag_outcome E (two_halo_integrand E k a)"
  unfolding qag_outcome_def by (rule run_qag_val [OF two_int_val])

lemma one_halo_integral_fst:
  "fst (one_halo_integral E k a s) =
     (if fst (qag_outcome E (one_halo_integrand E k a)) \<noteq> GSL_SUCCESS then NaN
      else snd (qag_outcome E (one_halo_integrand E k a)))"
  by (simp add: one_halo_integral_def Let_def split_def one_qag_any_state)

lemma two_halo_integral_fst:
  "fst (two_halo_integral E k a s) =
     (if fst (qag_outcome E (two_halo_integrand E k a)) \<noteq> GSL_SUCCESS then NaN
      else snd (qag_outcome E (two_halo_integrand E k a)))"
  by (simp add: two_halo_integral_def Let_def split_def two_qag_any_state)

lemma twohalo_fst:
  "fst (ccl_twohalo_matter_power E k a s) =
     (let I = fst (two_halo_integral E k a s1);
          I0 = fst (two_halo_integral E (Fin 0) a s2);
          Delta_v = fst (Dv_BryanNorman E a);
          W1 = fst (window_function E (HM_MMIN E) k a Delta_v ccl_nfw s3);
          W2 = fst (window_function E (HM_MMIN E) (Fin 0) a Delta_v ccl_nfw s4);
          A' = ddiv (dmul (dsub (Fin 1) I0) W1) W2;
          I2h = dadd I A'
      in dmul (dmul (fst (ccl_linear_matter_power E k a)) I2h) I2h)"
  unfolding ccl_twohalo_matter_power_def
  by (simp add: Let_def split_def collab_fst two_halo_integral_fst window_val)

subsection \<open>The history only grows, and what is added to it\<close>

lemma extends_refl: "extends P s s"
  by (simp add: extends_def)

lemma extends_trans: "extends P s s1 \<Longrightarrow> extends P s1 s2 \<Longrightarrow> extends P s s2"
  by (auto simp: extends_def)

lemma extends_mono: "extends P s s' \<Longrightarrow> (\<And>e. P e \<Longrightarrow> Q e) \<Longrightarrow> extends Q s s'"
  by (auto simp: extends_def list_all_iff)

lemma extends_new_events: "extends P s s' \<Longrightarrow> list_all P (new_events s s')"
  by (auto simp: extends_def new_events_def)

lemma extends_record: "P e \<Longrightarrow> extends P s (record_event e s)"
  by (simp add: extends_def record_event_def)

lemma extends_status [simp]:
  "extends P s (s'\<lparr>status := x\<rparr>) = extends P s s'"
  "extends P (s\<lparr>status := x\<rparr>) s' = extends P s s'"
  "extends P s (s'\<lparr>status_message := m\<rparr>) = extends P s s'"
  by (simp_all add: extends_def)

lemma trace_apply_raise [simp]: "trace (apply_raise r s) = trace s"
  by (cases r) auto

lemma extends_collab: "P e \<Longrightarrow> extends P s (snd (collab e r s))"
  by (simp add: extends_def collab_def record_event_def)

lemma extends_collab': "P e \<Longrightarrow> extends P s s1 \<Longrightarrow> extends P s (snd (collab e r s1))"
  by (auto simp add: extends_def collab_def record_event_def)

lemma extends_set_status: "P (Raised e) \<Longrightarrow> extends P s s1 \<Longrightarrow> extends P s (set_status e s1)"
  by (auto simp add: extends_def set_status_def record_event_def)

lemma extends_set_message [simp]: "extends P s (set_message m s1) = extends P s s1"
  by (simp add: set_message_def)

lemma new_events_set_status:
  "extends P s s1 \<Longrightarrow> new_events s (set_status e s1) = new_events s s1 @ [Raised e]"
  by (auto simp add: extends_def new_events_def set_status_def record_event_def)

lemma new_events_set_message [simp]: "new_events s (set_message m s1) = new_events s s1"
  by (simp add: new_events_def set_message_def)

lemma new_events_status [simp]: "new_events s (s1\<lparr>status := x\<rparr>) = new_events s s1"
  by (simp add: new_events_def)

lemma u_nfw_c_ext:
  "extends (ev_ok (fst (Dv_BryanNorman E a)) a) s (snd (u_nfw_c E c m k a s))"
  by (simp add: u_nfw_c_def Let_def split_def collab_fst extends_collab extends_collab')

lemma conc_ext:
  "extends (ev_ok (fst (Dv_BryanNorman E a)) a) s
     (snd (ccl_halo_concentration E m a (fst (Dv_BryanNorman E a)) ccl_duffy2008_virial s))"
  by (simp add: ccl_halo_concentration_def Let_def split_def collab_fst dne_self
        extends_collab' extends_set_status extends_record)

lemma window_ext:
  "extends (ev_ok (fst (Dv_BryanNorman E a)) a) s
     (snd (window_function E m k a (fst (Dv_BryanNorman E a)) ccl_nfw s))"
  unfolding window_function_def
  by (simp add: Let_def split_def)
     (intro extends_trans [OF _ u_nfw_c_ext] extends_trans [OF _ conc_ext]
        extends_collab' extends_record, simp_all)

lemma one_int_ext:
  "extends (ev_ok (fst (Dv_BryanNorman E a)) a) s (snd (one_halo_integrand E k a l s))"
  unfolding one_halo_integrand_def
  by (simp add: Let_def split_def collab_fst)
     (intro extends_collab' extends_trans [OF _ window_ext] extends_collab, simp_all)

lemma two_int_ext:
  "extends (ev_ok (fst (Dv_BryanNorman E a)) a) s (snd (two_halo_integrand E k a l s))"
  unfolding two_halo_integrand_def
  by (simp add: Let_def split_def collab_fst)
     (intro extends_collab' extends_trans [OF _ window_ext] extends_collab, simp_all)

lemma run_qag_ext:
  assumes "\<And>x s. extends P s (snd (F x s))"
  shows "extends P s (snd (run_qag q F s))"
proof (induction q arbitrary: s)
  case (QReturn r v)
  show ?case by (simp add: extends_refl)
next
  case (QEval x cont)
  have "extends P s (snd (F x s))" by (rule assms)
  moreover have "extends P (snd (F x s)) (snd (run_qag (cont (fst (F x s))) F (snd (F x s))))"
    using QEval.IH by simp
  ultimately show ?case by (simp add: split_def extends_trans)
qed

lemma one_qag_ext:
  "extends (ev_ok (fst (Dv_BryanNorman E a)) a) s
     (snd (run_qag q (one_halo_integrand E k a) (s\<lparr>status := None\<rparr>)))"
  using run_qag_ext [of "ev_ok (fst (Dv_BryanNorman E a)) a" "one_halo_integrand E k a"
      "s\<lparr>status := None\<rparr>" q, OF one_int_ext]
  by simp

lemma two_qag_ext:
  "extends (ev_ok (fst (Dv_BryanNorman E a)) a) s
     (snd (run_qag q (two_halo_integrand E k a) (s\<lparr>status := None\<rparr>)))"
  using run_qag_ext [of "ev_ok (fst (Dv_BryanNorman E a)) a" "two_halo_integrand E k a"
      "s\<lparr>status := None\<rparr>" q, OF two_int_ext]
  by simp

lemma ev_ok_top: "ev_ok dv a e \<Longrightarrow> ev_top dv a e"
  by (simp add: ev_top_def)

lemma one_halo_integral_ext:
  "extends (ev_top (fst (Dv_BryanNorman E a)) a) s (snd (one_halo_integral E k a s))"
  unfolding one_halo_integral_def
  by (auto simp add: Let_def split_def ccl_raise_gsl_warning_def ev_top_def
        extends_mono [OF one_qag_ext ev_ok_top] intro!: extends_set_status)

lemma two_halo_integral_ext:
  "extends (ev_top (fst (Dv_BryanNorman E a)) a) s (snd (two_halo_integral E k a s))"
  unfolding two_halo_integral_def
  by (auto simp add: Let_def split_def ccl_raise_gsl_warning_def ev_top_def
        extends_mono [OF two_qag_ext ev_ok_top] intro!: extends_set_status)

lemma window_ext_top:
  "extends (ev_top (fst (Dv_BryanNorman E a)) a) s
     (snd (window_function E m k a (fst (Dv_BryanNorman E a)) ccl_nfw s))"
  using extends_mono [OF window_ext ev_ok_top] .

lemma twohalo_ext:
  "extends (ev_top (fst (Dv_BryanNorman E a)) a) s (snd (ccl_twohalo_matter_power E k a s))"
  unfolding ccl_twohalo_matter_power_def
  by (simp add: Let_def split_def collab_fst)
     (intro extends_collab' extends_trans [OF _ window_ext_top]
        extends_trans [OF _ two_halo_integral_ext] two_halo_integral_ext,
      simp_all add: ev_top_def)

lemma onehalo_ext:
  "extends (ev_top (fst (Dv_BryanNorman E a)) a) s (snd (ccl_onehalo_matter_power E k a s))"
  by (simp add: ccl_onehalo_matter_power_def one_halo_integral_ext)

lemma halomodel_ext:
  "extends (ev_top (fst (Dv_BryanNorman E a)) a) s (snd (ccl_halomodel_matter_power E k a s))"
  unfolding ccl_halomodel_matter_power_def
  by (simp add: Let_def split_def extends_trans [OF twohalo_ext onehalo_ext]
        extends_trans [OF onehalo_ext twohalo_ext])

lemma run_entry_ext:
  "extends (ev_top (fst (Dv_BryanNorman E a)) a) s (snd (run_entry p E k a s))"
  by (cases p) (simp_all add: onehalo_ext twohalo_ext halomodel_ext)

subsection \<open>The status: what the integrals write, and that it is never cleared\<close>

lemma one_halo_integral_status:
  "status (snd (one_halo_integral E k a s)) =
     (if fst (qag_outcome E (one_halo_integrand E k a)) \<noteq> GSL_SUCCESS
      then Some CCL_ERROR_ONE_HALO_INT else status s)"
  by (simp add: one_halo_integral_def Let_def split_def one_qag_any_state set_message_def
        set_status_def record_event_def ccl_raise_gsl_warning_def)

lemma two_halo_integral_status:
  "status (snd (two_halo_integral E k a s)) =
     (if fst (qag_outcome E (two_halo_integrand E k a)) \<noteq> GSL_SUCCESS
      then Some CCL_ERROR_TWO_HALO_INT else status s)"
  by (simp add: two_halo_integral_def Let_def split_def two_qag_any_state set_message_def
        set_status_def record_event_def ccl_raise_gsl_warning_def)

lemma one_halo_integral_message:
  "fst (qag_outcome E (one_halo_integrand E k a)) \<noteq> GSL_SUCCESS \<Longrightarrow>
   status_message (snd (one_halo_integral E k a s)) = msg_one_halo"
  by (simp add: one_halo_integral_def Let_def split_def one_qag_any_state set_message_def)

lemma two_halo_integral_message:
  "fst (qag_outcome E (two_halo_integrand E k a)) \<noteq> GSL_SUCCESS \<Longrightarrow>
   status_message (snd (two_halo_integral E k a s)) = msg_two_halo"
  by (simp add: two_halo_integral_def Let_def split_def two_qag_any_state set_message_def)

lemma status_set_simps [simp]:
  "status_set (set_status e s)"
  "status_set (set_message m s) = status_set s"
  "status_set (record_event ev s) = status_set s"
  by (simp_all add: status_set_def set_status_def set_message_def record_event_def)

lemma collab_latched: "status_set s \<Longrightarrow> status_set (snd (collab e r s))"
  by (cases r; cases "snd r") (auto simp: collab_def record_event_def status_set_def)

lemma u_nfw_c_latched: "status_set s \<Longrightarrow> status_set (snd (u_nfw_c E c m k a s))"
  by (simp add: u_nfw_c_def Let_def split_def collab_latched)

lemma conc_latched:
  "status_set s \<Longrightarrow> status_set (snd (ccl_halo_concentration E m a od l s))"
  by (simp add: ccl_halo_concentration_def Let_def split_def collab_latched
        ccl_raise_exception_def split: ccl_conc_label.splits)

lemma window_latched:
  "status_set s \<Longrightarrow> status_set (snd (window_function E m k a od l s))"
  by (simp add: window_function_def Let_def split_def collab_latched conc_latched
        u_nfw_c_latched ccl_raise_exception_def split: ccl_win_label.splits)

lemma two_halo_integral_latched:
  "status_set s \<Longrightarrow> status_set (snd (two_halo_integral E k a s))"
  by (simp add: status_set_def two_halo_integral_status)

lemma one_halo_integral_latched:
  "status_set s \<Longrightarrow> status_set (snd (one_halo_integral E k a s))"
  by (simp add: status_set_def one_halo_integral_status)

lemma twohalo_latched:
  "status_set s \<Longrightarrow> status_set (snd (ccl_twohalo_matter_power E k a s))"
  unfolding ccl_twohalo_matter_power_def
  by (simp add: Let_def split_def collab_latched window_latched two_halo_integral_latched)

lemma run_entry_latched: "status_set s \<Longrightarrow> status_set (snd (run_entry p E k a s))"
  by (cases p)
     (simp_all add: ccl_onehalo_matter_power_def ccl_halomodel_matter_power_def Let_def
        split_def one_halo_integral_latched twohalo_latched)

lemma twohalo_failure:
  assumes "fst (qag_outcome E (two_halo_integrand E k a)) \<noteq> GSL_SUCCESS \<or>
           fst (qag_outcome E (two_halo_integrand E (Fin 0) a)) \<noteq> GSL_SUCCESS"
  shows "fst (ccl_twohalo_matter_power E k a s) = NaN"
    and "status_set (snd (ccl_twohalo_matter_power E k a s))"
proof -
  show "fst (ccl_twohalo_matter_power E k a s) = NaN"
    using assms
    by (auto simp add: twohalo_fst [of E k a s s s s s] two_halo_integral_fst Let_def)
  have "status_set (snd (two_halo_integral E (Fin 0) a (snd (two_halo_integral E k a s))))"
    using assms by (auto simp add: two_halo_integral_status status_set_def)
  then show "status_set (snd (ccl_twohalo_matter_power E k a s))"
    unfolding ccl_twohalo_matter_power_def
    by (simp add: Let_def split_def collab_latched window_latched)
qed

subsection \<open>Unfolding the model on a concrete input\<close>

lemmas hm_defs =
  ccl_halomodel_matter_power_def ccl_onehalo_matter_power_def ccl_twohalo_matter_power_def
  one_halo_integral_def two_halo_integral_def one_halo_integrand_def two_halo_integrand_def
  window_function_def ccl_halo_concentration_def u_nfw_c_def collab_def record_event_def
  set_status_def set_message_def ccl_raise_exception_def ccl_raise_gsl_warning_def
  dne_def deq_def dsub_def GSL_SUCCESS_def Let_def new_events_def clean_def qag_outcome_def

lemmas env_defs =
  env0_def env_fail_def env_mf_def env_nan_def toy_log10_def toy_pow_def midpoint_qag_def
  failing_qag_def

section \<open>The claims\<close>

subsection \<open>The profile transform at zero wavenumber\<close>

text \<open>
  Claim C7. For every concentration, mass and scale factor, \<^verbatim>\<open>u_nfw_c\<close> at wavenumber
  exactly 0 returns exactly 1. The case is taken before the general expression: the only
  call made is the one to \<^verbatim>\<open>Dv_BryanNorman\<close> that opens the function, and neither the
  virial radius nor \<open>Si\<close>, \<open>Ci\<close> is evaluated. The statement holds for every \<open>c\<close>, the
  valid ones (\<open>c > 0\<close>) among them.
\<close>

theorem u_nfw_c_unity_at_zero:
  "fst (u_nfw_c E c halomass (Fin 0) a s) = Fin 1 \<and>
   new_events s (snd (u_nfw_c E c halomass (Fin 0) a s)) = [Call_Dv_BryanNorman a]"
  by (simp add: u_nfw_c_def Let_def split_def deq_zero collab_def new_events_def
        record_event_def)

theorem u_nfw_c_unity_at_zero_witness:
  "fst (u_nfw_c env0 (Fin 4) (Fin 10000000000000) (Fin 0) (Fin 1) clean) = Fin 1 \<and>
   new_events clean (snd (u_nfw_c env0 (Fin 4) (Fin 10000000000000) (Fin 0) (Fin 1) clean)) =
     [Call_Dv_BryanNorman (Fin 1)]"
  by (rule u_nfw_c_unity_at_zero)

subsection \<open>The concentration models\<close>

text \<open>
  Claim C5. With the Bhattacharya model, \<^verbatim>\<open>ccl_halo_concentration\<close> raises
  \<^verbatim>\<open>CCL_ERROR_CONC_DV\<close> (ModelMismatch) exactly when the overdensity is not 200, and then
  returns NaN with that status and its message; when the overdensity is 200 it returns
  \<^verbatim>\<open>9 * pow(nu, -0.29) * pow(g(a)/g(1), 1.15)\<close> with \<^verbatim>\<open>nu = 1.686 / sigma(M, a)\<close>, where
  \<open>sigma\<close> is \<^verbatim>\<open>ccl_sigmaM\<close> and \<open>g\<close> is \<^verbatim>\<open>ccl_growth_factor\<close>. A NaN overdensity is
  not equal to 200 and fails.
\<close>

theorem bhattacharya_concentration:
  "let r = ccl_halo_concentration E halomass a odelta ccl_bhattacharya2011 s;
       nu = ddiv (Fin 1.686) (fst (ccl_sigmaM E halomass a));
       gz = fst (ccl_growth_factor E a);
       g0 = fst (ccl_growth_factor E (Fin 1))
   in (Raised CCL_ERROR_CONC_DV \<in> set (new_events s (snd r)) \<longleftrightarrow> odelta \<noteq> Fin 200) \<and>
      (odelta \<noteq> Fin 200 \<longrightarrow>
         fst r = NaN \<and> status (snd r) = Some CCL_ERROR_CONC_DV \<and>
         status_message (snd r) = msg_bhattacharya) \<and>
      (odelta = Fin 200 \<longrightarrow>
         fst r = dmul (dmul (Fin 9) (libm_pow E nu (Fin (- 0.29))))
                   (libm_pow E (ddiv gz g0) (Fin 1.15)))"
  by (simp add: ccl_halo_concentration_def Let_def split_def collab_def new_events_def
        record_event_def set_status_def set_message_def dne_def deq_def)

theorem bhattacharya_concentration_witness:
  "fst (ccl_halo_concentration env0 (Fin 10000000000000) (Fin 1) (Fin 178)
          ccl_bhattacharya2011 clean) = NaN \<and>
   status (snd (ccl_halo_concentration env0 (Fin 10000000000000) (Fin 1) (Fin 178)
          ccl_bhattacharya2011 clean)) = Some CCL_ERROR_CONC_DV \<and>
   fst (ccl_halo_concentration env0 (Fin 10000000000000) (Fin 1) (Fin 200)
          ccl_bhattacharya2011 clean) = Fin 9 \<and>
   status (snd (ccl_halo_concentration env0 (Fin 10000000000000) (Fin 1) (Fin 200)
          ccl_bhattacharya2011 clean)) = None"
  using bhattacharya_concentration [of env0 "Fin 10000000000000" "Fin 1" "Fin 178" clean]
    bhattacharya_concentration [of env0 "Fin 10000000000000" "Fin 1" "Fin 200" clean]
  by (simp add: hm_defs env_defs)

text \<open>
  Claim C6, as amended. With the Duffy virial model, \<^verbatim>\<open>ccl_halo_concentration\<close> raises
  \<^verbatim>\<open>CCL_ERROR_CONC_DV\<close> and returns NaN exactly when the C comparison
  \<^verbatim>\<open>odelta != Dv_BryanNorman(cosmo, a, status)\<close> holds, that is when the overdensity differs
  from the virial overdensity at \<open>a\<close> or that virial overdensity is NaN. Otherwise it returns
  \<^verbatim>\<open>A * pow(M/Mpiv, B) * pow(a, -C)\<close> with \<open>A = 7.85\<close>, \<open>B = -0.081\<close>, \<open>C = -0.71\<close> and
  \<^verbatim>\<open>Mpiv = 2e12 / h\<close>.
\<close>

theorem duffy_virial_concentration:
  "let dv = fst (Dv_BryanNorman E a);
       r = ccl_halo_concentration E halomass a odelta ccl_duffy2008_virial s;
       Mpiv = ddiv (Fin 2000000000000) (params_h E)
   in (Raised CCL_ERROR_CONC_DV \<in> set (new_events s (snd r)) \<longleftrightarrow> odelta \<noteq> dv \<or> dv = NaN) \<and>
      (odelta \<noteq> dv \<or> dv = NaN \<longrightarrow>
         fst r = NaN \<and> status (snd r) = Some CCL_ERROR_CONC_DV \<and>
         status_message (snd r) = msg_duffy) \<and>
      (odelta = dv \<and> dv \<noteq> NaN \<longrightarrow>
         fst r = dmul (dmul (Fin 7.85) (libm_pow E (ddiv halomass Mpiv) (Fin (- 0.081))))
                   (libm_pow E a (dneg (Fin (- 0.71)))))"
  by (auto simp add: ccl_halo_concentration_def Let_def split_def collab_def new_events_def
        record_event_def set_status_def set_message_def dne_iff)

theorem duffy_virial_concentration_witness:
  "fst (ccl_halo_concentration env0 (Fin 10000000000000) (Fin 1) (Fin 200)
          ccl_duffy2008_virial clean) = NaN \<and>
   status (snd (ccl_halo_concentration env0 (Fin 10000000000000) (Fin 1) (Fin 200)
          ccl_duffy2008_virial clean)) = Some CCL_ERROR_CONC_DV \<and>
   fst (ccl_halo_concentration env0 (Fin 10000000000000) (Fin 1) (Fin 178)
          ccl_duffy2008_virial clean) = Fin 7.85 \<and>
   status (snd (ccl_halo_concentration env0 (Fin 10000000000000) (Fin 1) (Fin 178)
          ccl_duffy2008_virial clean)) = None"
  using duffy_virial_concentration [of env0 "Fin 1" "Fin 10000000000000" "Fin 200" clean]
    duffy_virial_concentration [of env0 "Fin 1" "Fin 10000000000000" "Fin 178" clean]
  by (simp add: hm_defs env_defs)

text \<open>
  The claim as first stated (failure exactly when the overdensity differs from the
  collaborator's value) fails where the virial overdensity is NaN: the overdensity handed
  in is that same NaN, and the call fails all the same.
\<close>

theorem duffy_virial_nan_counterexample:
  "fst (Dv_BryanNorman env_nan (Fin 1)) = NaN \<and>
   fst (ccl_halo_concentration env_nan (Fin 10000000000000) (Fin 1) NaN
          ccl_duffy2008_virial clean) = NaN \<and>
   status (snd (ccl_halo_concentration env_nan (Fin 10000000000000) (Fin 1) NaN
          ccl_duffy2008_virial clean)) = Some CCL_ERROR_CONC_DV \<and>
   status_message (snd (ccl_halo_concentration env_nan (Fin 10000000000000) (Fin 1) NaN
          ccl_duffy2008_virial clean)) = msg_duffy"
  by (simp add: hm_defs env_defs)

subsection \<open>The mass integrals\<close>

text \<open>
  Claim C8. Each of \<^verbatim>\<open>one_halo_integral\<close> and \<^verbatim>\<open>two_halo_integral\<close> raises its
  IntegrationFailure code (\<^verbatim>\<open>CCL_ERROR_ONE_HALO_INT\<close>, \<^verbatim>\<open>CCL_ERROR_TWO_HALO_INT\<close>) exactly
  when the quadrature over \<^verbatim>\<open>[log10(HM_MMIN), log10(HM_MMAX)]\<close> returns a status other than
  \<^verbatim>\<open>GSL_SUCCESS\<close>, and then returns NaN with that status; on success it returns the
  quadrature's result as it is, with no factor applied, and leaves the caller's status alone.
\<close>

theorem mass_integral_outcome:
  "let q1 = qag_outcome E (one_halo_integrand E k a);
       r1 = one_halo_integral E k a s;
       q2 = qag_outcome E (two_halo_integrand E k a);
       r2 = two_halo_integral E k a s
   in (Raised CCL_ERROR_ONE_HALO_INT \<in> set (new_events s (snd r1)) \<longleftrightarrow> fst q1 \<noteq> GSL_SUCCESS) \<and>
      fst r1 = (if fst q1 \<noteq> GSL_SUCCESS then NaN else snd q1) \<and>
      status (snd r1) =
        (if fst q1 \<noteq> GSL_SUCCESS then Some CCL_ERROR_ONE_HALO_INT else status s) \<and>
      (Raised CCL_ERROR_TWO_HALO_INT \<in> set (new_events s (snd r2)) \<longleftrightarrow> fst q2 \<noteq> GSL_SUCCESS) \<and>
      fst r2 = (if fst q2 \<noteq> GSL_SUCCESS then NaN else snd q2) \<and>
      status (snd r2) =
        (if fst q2 \<noteq> GSL_SUCCESS then Some CCL_ERROR_TWO_HALO_INT else status s)"
proof -
  let ?dv = "fst (Dv_BryanNorman E a)"
  let ?lo = "libm_log10 E (HM_MMIN E)" and ?hi = "libm_log10 E (HM_MMAX E)"
  let ?s1 = "snd (run_qag (gsl_integration_qag E ?lo ?hi) (one_halo_integrand E k a)
                (s\<lparr>status := None\<rparr>))"
  let ?s2 = "snd (run_qag (gsl_integration_qag E ?lo ?hi) (two_halo_integrand E k a)
                (s\<lparr>status := None\<rparr>))"
  have e1: "extends (ev_ok ?dv a) s ?s1" by (rule one_qag_ext)
  have e2: "extends (ev_ok ?dv a) s ?s2" by (rule two_qag_ext)
  have n1: "Raised CCL_ERROR_ONE_HALO_INT \<notin> set (new_events s ?s1)"
    using extends_new_events [OF e1] by (auto simp add: list_all_iff)
  have n2: "Raised CCL_ERROR_TWO_HALO_INT \<notin> set (new_events s ?s2)"
    using extends_new_events [OF e2] by (auto simp add: list_all_iff)
  have t1: "Raised CCL_ERROR_ONE_HALO_INT \<in> set (new_events s (snd (one_halo_integral E k a s)))
              \<longleftrightarrow> fst (qag_outcome E (one_halo_integrand E k a)) \<noteq> GSL_SUCCESS"
    using n1
    by (simp add: one_halo_integral_def Let_def split_def one_qag_any_state
          ccl_raise_gsl_warning_def new_events_set_status [of "ev_ok ?dv a"] e1)
  have t2: "Raised CCL_ERROR_TWO_HALO_INT \<in> set (new_events s (snd (two_halo_integral E k a s)))
              \<longleftrightarrow> fst (qag_outcome E (two_halo_integrand E k a)) \<noteq> GSL_SUCCESS"
    using n2
    by (simp add: two_halo_integral_def Let_def split_def two_qag_any_state
          ccl_raise_gsl_warning_def new_events_set_status [of "ev_ok ?dv a"] e2)
  show ?thesis
    unfolding Let_def
    using t1 t2 one_halo_integral_fst [of E k a s] two_halo_integral_fst [of E k a s]
      one_halo_integral_status [of E k a s] two_halo_integral_status [of E k a s]
    by simp
qed

theorem mass_integral_outcome_witness:
  "qag_outcome env0 (one_halo_integrand env0 (Fin 0) (Fin 1)) =
     (GSL_SUCCESS, Fin 450000000000000000000000000) \<and>
   fst (one_halo_integral env0 (Fin 0) (Fin 1) clean) = Fin 450000000000000000000000000 \<and>
   status (snd (one_halo_integral env0 (Fin 0) (Fin 1) clean)) = None \<and>
   fst (qag_outcome env_fail (two_halo_integrand env_fail (Fin 0) (Fin 1))) = 11 \<and>
   fst (two_halo_integral env_fail (Fin 0) (Fin 1) clean) = NaN \<and>
   status (snd (two_halo_integral env_fail (Fin 0) (Fin 1) clean)) =
     Some CCL_ERROR_TWO_HALO_INT \<and>
   Raised CCL_ERROR_TWO_HALO_INT \<in>
     set (new_events clean (snd (two_halo_integral env_fail (Fin 0) (Fin 1) clean)))"
  using mass_integral_outcome [of env0 "Fin 0" "Fin 1" clean]
    mass_integral_outcome [of env_fail "Fin 0" "Fin 1" clean]
  by (simp add: hm_defs env_defs)

subsection \<open>One overdensity for the profile, the mass function and the bias\<close>

lemma ev_ok_same_odelta: "ev_ok dv a e \<Longrightarrow> same_odelta dv e"
  by (cases e) (simp_all add: same_odelta_def)

lemma ev_top_same_odelta: "ev_top dv a e \<Longrightarrow> same_odelta dv e"
  by (auto simp add: ev_top_def ev_ok_same_odelta) (simp_all add: same_odelta_def)

text \<open>
  Claim C9. Every overdensity argument that a call of an integrand hands on, to the window
  function (and through it to the concentration and the virial radius of the profile), to
  the mass function and to the halo bias, is the value of \<^verbatim>\<open>Dv_BryanNorman\<close> at the
  requested scale factor; and so is every overdensity argument handed on in the whole of a
  call of a public routine, the integrand calls of its quadratures included.
\<close>

theorem one_overdensity_throughout:
  "list_all (same_odelta (fst (Dv_BryanNorman E a)))
     (new_events s (snd (one_halo_integrand E k a log10mass s))) \<and>
   list_all (same_odelta (fst (Dv_BryanNorman E a)))
     (new_events s (snd (two_halo_integrand E k a log10mass s))) \<and>
   list_all (same_odelta (fst (Dv_BryanNorman E a)))
     (new_events s (snd (run_entry p E k a s)))"
proof -
  let ?dv = "fst (Dv_BryanNorman E a)"
  have "extends (same_odelta ?dv) s (snd (one_halo_integrand E k a log10mass s))"
    by (rule extends_mono [OF one_int_ext]) (rule ev_ok_same_odelta)
  moreover have "extends (same_odelta ?dv) s (snd (two_halo_integrand E k a log10mass s))"
    by (rule extends_mono [OF two_int_ext]) (rule ev_ok_same_odelta)
  moreover have "extends (same_odelta ?dv) s (snd (run_entry p E k a s))"
    by (rule extends_mono [OF run_entry_ext]) (rule ev_top_same_odelta)
  ultimately show ?thesis
    by (simp add: extends_new_events)
qed

theorem one_overdensity_throughout_witness:
  "list_all (same_odelta (Fin 178))
     (new_events clean (snd (two_halo_integrand env0 (Fin 1) (Fin 1) (Fin 13) clean))) \<and>
   new_events clean (snd (two_halo_integrand env0 (Fin 1) (Fin 1) (Fin 13) clean)) =
     [Call_Dv_BryanNorman (Fin 1),
      Call_window_function (Fin 10000000000000) (Fin 1) (Fin 1) (Fin 178) ccl_nfw,
      Call_rho_x (Fin 1) ccl_species_m_label 1,
      Call_halo_concentration (Fin 10000000000000) (Fin 1) (Fin 178) ccl_duffy2008_virial,
      Call_Dv_BryanNorman (Fin 1),
      Call_Dv_BryanNorman (Fin 1),
      Call_r_delta (Fin 10000000000000) (Fin 1) (Fin 178),
      Call_massfunc (Fin 10000000000000) (Fin 1) (Fin 178),
      Call_halo_bias (Fin 10000000000000) (Fin 1) (Fin 178)] \<and>
   list_all (same_odelta (Fin 178))
     (new_events clean (snd (run_entry Halo_model env0 (Fin 1) (Fin 1) clean)))"
  using one_overdensity_throughout [of env0 "Fin 1" clean "Fin 1" "Fin 13" Halo_model]
  by (simp add: hm_defs env_defs)

subsection \<open>The concentration model behind the window function\<close>

lemma ev_top_nfw_duffy: "ev_top dv a e \<Longrightarrow> nfw_duffy_virial dv a e"
  by (cases e) (auto simp add: ev_top_def)

lemma ev_top_no_selector_error: "dv \<noteq> NaN \<Longrightarrow> ev_top dv a e \<Longrightarrow> no_selector_error e"
  by (cases e) (auto simp add: ev_top_def)

text \<open>
  Claim C10, as amended. In a call of any of the three public routines every window
  function call is the NFW one and every concentration call is the Duffy virial one, both at
  the Bryan-Norman virial overdensity of the requested scale factor: the caller selects
  neither. When that virial overdensity is not NaN, none of \<^verbatim>\<open>CCL_ERROR_CONC_DV\<close>
  (ModelMismatch), \<^verbatim>\<open>CCL_ERROR_HALOCONC\<close> and \<^verbatim>\<open>CCL_ERROR_HALOWIN\<close> is raised.
\<close>

theorem concentration_model_fixed:
  "list_all (nfw_duffy_virial (fst (Dv_BryanNorman E a)) a)
     (new_events s (snd (run_entry p E k a s))) \<and>
   (fst (Dv_BryanNorman E a) \<noteq> NaN \<longrightarrow>
      list_all no_selector_error (new_events s (snd (run_entry p E k a s))))"
proof -
  let ?dv = "fst (Dv_BryanNorman E a)"
  have "extends (nfw_duffy_virial ?dv a) s (snd (run_entry p E k a s))"
    by (rule extends_mono [OF run_entry_ext]) (rule ev_top_nfw_duffy)
  moreover have "extends no_selector_error s (snd (run_entry p E k a s))" if "?dv \<noteq> NaN"
    by (rule extends_mono [OF run_entry_ext]) (rule ev_top_no_selector_error [OF that])
  ultimately show ?thesis
    by (simp add: extends_new_events)
qed

theorem concentration_model_fixed_witness:
  "fst (Dv_BryanNorman env0 (Fin 1)) \<noteq> NaN \<and>
   list_all (nfw_duffy_virial (Fin 178) (Fin 1))
     (new_events clean (snd (run_entry Halo_model env0 (Fin 1) (Fin 1) clean))) \<and>
   list_all no_selector_error
     (new_events clean (snd (run_entry Halo_model env0 (Fin 1) (Fin 1) clean))) \<and>
   Call_halo_concentration (Fin 10000000000000) (Fin 1) (Fin 178) ccl_duffy2008_virial
     \<in> set (new_events clean (snd (run_entry Halo_model env0 (Fin 1) (Fin 1) clean)))"
  using concentration_model_fixed [of env0 "Fin 1" clean Halo_model "Fin 1"]
  by (simp add: hm_defs env_defs)

text \<open>
  Without the condition the claim fails: where \<^verbatim>\<open>Dv_BryanNorman\<close> returns NaN, the
  comparison \<^verbatim>\<open>odelta != Dv_BryanNorman(cosmo, a, status)\<close> is true although \<open>odelta\<close> is
  that very value, and each public routine reaches the ModelMismatch branch. The two-halo
  routine hands the code to its caller.
\<close>

theorem model_mismatch_reachable_counterexample:
  "status (snd (ccl_twohalo_matter_power env_nan (Fin 0) (Fin 1) clean)) =
     Some CCL_ERROR_CONC_DV \<and>
   status_message (snd (ccl_twohalo_matter_power env_nan (Fin 0) (Fin 1) clean)) = msg_duffy \<and>
   Raised CCL_ERROR_CONC_DV \<in>
     set (trace (snd (ccl_onehalo_matter_power env_nan (Fin 0) (Fin 1) clean))) \<and>
   Raised CCL_ERROR_CONC_DV \<in>
     set (trace (snd (ccl_halomodel_matter_power env_nan (Fin 0) (Fin 1) clean)))"
  by (simp add: hm_defs env_defs)

subsection \<open>The window function\<close>

text \<open>
  Claim C4, as amended. For every mass, wavenumber and scale factor the NFW window function
  is \<^verbatim>\<open>m * U / rho\<close>, where \<open>U\<close> is \<^verbatim>\<open>u_nfw_c\<close> at the Duffy virial concentration and \<open>rho\<close> is
  the mean matter density that \<^verbatim>\<open>ccl_rho_x\<close> returns at scale factor 1 with the comoving
  flag set; the requested scale factor is not handed to the density.
\<close>

theorem window_function_formula:
  "fst (window_function E m k a odelta ccl_nfw s) =
     (let c = fst (ccl_halo_concentration E m a odelta ccl_duffy2008_virial s1);
          U = fst (u_nfw_c E c m k a s2);
          rho_matter = fst (ccl_rho_x E (Fin 1) ccl_species_m_label 1)
      in ddiv (dmul m U) rho_matter)"
  by (simp add: window_function_def Let_def split_def collab_fst conc_val u_nfw_c_val)

theorem window_function_formula_witness:
  "fst (window_function env0 (Fin 10000000000000) (Fin 0) (Fin 0.5) (Fin 178) ccl_nfw clean) =
     Fin 5000000000000 \<and>
   fst (ccl_rho_x env0 (Fin 1) ccl_species_m_label 1) = Fin 2"
  using window_function_formula
    [of env0 "Fin 10000000000000" "Fin 0" "Fin 0.5" "Fin 178" clean clean clean]
  by (simp add: hm_defs env_defs)

text \<open>
  The claim as first stated divides by the density at the requested scale factor. With a
  density that depends on the scale factor that is another number: at \<open>a = 1/2\<close> the
  density of \<open>env0\<close> is 16, and the window function still divides by 2, the density at
  \<open>a = 1\<close>.
\<close>

theorem window_density_at_a_counterexample:
  "fst (window_function env0 (Fin 10000000000000) (Fin 0) (Fin 0.5) (Fin 178) ccl_nfw clean) \<noteq>
     ddiv (dmul (Fin 10000000000000)
             (fst (u_nfw_c env0
                (fst (ccl_halo_concentration env0 (Fin 10000000000000) (Fin 0.5) (Fin 178)
                        ccl_duffy2008_virial clean))
                (Fin 10000000000000) (Fin 0) (Fin 0.5) clean)))
          (fst (ccl_rho_x env0 (Fin 0.5) ccl_species_m_label 1))"
  by (simp add: hm_defs env_defs)

subsection \<open>The two-halo term and the total\<close>

text \<open>
  Claim C1. For every cosmology, wavenumber and scale factor, the value of
  \<^verbatim>\<open>ccl_twohalo_matter_power\<close> is the linear matter power at \<open>(k, a)\<close> times the square of
  \<^verbatim>\<open>I2h = two_halo(k) + A'\<close>, where \<^verbatim>\<open>A' = (1 - two_halo(0)) * W(Mmin, k, a) / W(Mmin, 0, a)\<close>
  and \<open>W\<close> is the NFW window function at the mass \<^verbatim>\<open>HM_MMIN\<close> and the virial overdensity.
  Each quantity is the value of its own call, on any state. The square is taken as the
  source writes it, \<^verbatim>\<open>P * I2h * I2h\<close>, that is \<^verbatim>\<open>(P * I2h) * I2h\<close>: the statement keeps
  that order of the two multiplications and uses no law of arithmetic.
\<close>

theorem twohalo_power_formula:
  "fst (ccl_twohalo_matter_power E k a s) =
     (let two_halo_k = fst (two_halo_integral E k a s1);
          two_halo_0 = fst (two_halo_integral E (Fin 0) a s2);
          Delta_v = fst (Dv_BryanNorman E a);
          W_k = fst (window_function E (HM_MMIN E) k a Delta_v ccl_nfw s3);
          W_0 = fst (window_function E (HM_MMIN E) (Fin 0) a Delta_v ccl_nfw s4);
          A' = ddiv (dmul (dsub (Fin 1) two_halo_0) W_k) W_0;
          I2h = dadd two_halo_k A'
      in dmul (dmul (fst (ccl_linear_matter_power E k a)) I2h) I2h)"
  by (rule twohalo_fst)

theorem twohalo_power_formula_witness:
  "fst (ccl_twohalo_matter_power env0 (Fin 0) (Fin 1) clean) = Fin 5 \<and>
   fst (two_halo_integral env0 (Fin 0) (Fin 1) clean) = Fin 45000000000000 \<and>
   fst (window_function env0 (HM_MMIN env0) (Fin 0) (Fin 1) (Fin 178) ccl_nfw clean) =
     Fin 5000000000 \<and>
   fst (ccl_linear_matter_power env0 (Fin 0) (Fin 1)) = Fin 5 \<and>
   fst (ccl_twohalo_matter_power env0 (Fin 1) (Fin 1) clean) =
     Fin (89244800000 / 19586581502929) \<and>
   fst (two_halo_integral env0 (Fin 1) (Fin 1) clean) = Fin (6012000000000000000 / 4425673) \<and>
   fst (window_function env0 (HM_MMIN env0) (Fin 1) (Fin 1) (Fin 178) ccl_nfw clean) =
     Fin (668000000000000 / 4425673)"
  using twohalo_power_formula [of env0 "Fin 0" "Fin 1" clean clean clean clean clean]
    twohalo_power_formula [of env0 "Fin 1" "Fin 1" clean clean clean clean clean]
  by (simp add: hm_defs env_defs)

text \<open>
  Claim C3. For every cosmology, wavenumber and scale factor, the value of
  \<^verbatim>\<open>ccl_halomodel_matter_power\<close> is the sum of the value of \<^verbatim>\<open>ccl_onehalo_matter_power\<close>
  and the value of \<^verbatim>\<open>ccl_twohalo_matter_power\<close>, each computed on its own from any state,
  whichever of the two calls the compiled sum makes first. Equality is equality of doubles
  in the model; it holds whether or not the sub-terms succeed.
\<close>

theorem halomodel_power_is_sum:
  "fst (ccl_halomodel_matter_power E k a s) =
     dadd (fst (ccl_onehalo_matter_power E k a s1)) (fst (ccl_twohalo_matter_power E k a s2))"
proof -
  have one: "fst (ccl_onehalo_matter_power E k a t) = fst (ccl_onehalo_matter_power E k a s1)"
    for t
    unfolding ccl_onehalo_matter_power_def one_halo_integral_fst ..
  have two: "fst (ccl_twohalo_matter_power E k a t) = fst (ccl_twohalo_matter_power E k a s2)"
    for t
    unfolding twohalo_fst [of E k a _ s s s s] ..
  show ?thesis
  proof (cases "left_operand_first E")
    case True
    then have "fst (ccl_halomodel_matter_power E k a s) =
        dadd (fst (ccl_twohalo_matter_power E k a s))
          (fst (ccl_onehalo_matter_power E k a (snd (ccl_twohalo_matter_power E k a s))))"
      by (simp add: ccl_halomodel_matter_power_def Let_def split_def)
    also have "\<dots> = dadd (fst (ccl_twohalo_matter_power E k a s2))
                       (fst (ccl_onehalo_matter_power E k a s1))"
      unfolding one [of "snd (ccl_twohalo_matter_power E k a s)"] two [of s] ..
    finally show ?thesis
      by (simp only: dadd_comm)
  next
    case False
    then have "fst (ccl_halomodel_matter_power E k a s) =
        dadd (fst (ccl_twohalo_matter_power E k a (snd (ccl_onehalo_matter_power E k a s))))
          (fst (ccl_onehalo_matter_power E k a s))"
      by (simp add: ccl_halomodel_matter_power_def Let_def split_def)
    also have "\<dots> = dadd (fst (ccl_twohalo_matter_power E k a s2))
                       (fst (ccl_onehalo_matter_power E k a s1))"
      unfolding one [of s] two [of "snd (ccl_onehalo_matter_power E k a s)"] ..
    finally show ?thesis
      by (simp only: dadd_comm)
  qed
qed

theorem halomodel_power_is_sum_witness:
  "fst (ccl_halomodel_matter_power env0 (Fin 0) (Fin 1) clean) =
     Fin 450000000000000000000000005 \<and>
   fst (ccl_halomodel_matter_power (env0\<lparr>left_operand_first := False\<rparr>) (Fin 0) (Fin 1) clean) =
     Fin 450000000000000000000000005 \<and>
   fst (ccl_onehalo_matter_power env0 (Fin 0) (Fin 1) clean) =
     Fin 450000000000000000000000000 \<and>
   fst (ccl_twohalo_matter_power env0 (Fin 0) (Fin 1) clean) = Fin 5"
  using halomodel_power_is_sum [of env0 "Fin 0" "Fin 1" clean clean clean]
    halomodel_power_is_sum
      [of "env0\<lparr>left_operand_first := False\<rparr>" "Fin 0" "Fin 1" clean clean clean]
  by (simp add: hm_defs env_defs)

subsection \<open>Failures and the status\<close>

text \<open>
  Claim C2, as amended. When the quadrature of a mass integral fails, every public routine
  that runs that integral returns NaN with the status set: the one-halo routine with
  \<^verbatim>\<open>CCL_ERROR_ONE_HALO_INT\<close> and its message, the two-halo routine and the total with some
  code. No routine ever clears a status that is set. The routines do not stop at a failure:
  the rest of the computation runs, and the status and the message on return are the ones
  written last. The state that can change is the status, the message and nothing else (the
  environment is not part of the state). What becomes of an error raised inside an integrand
  is left open here.
\<close>

theorem quadrature_failure_at_entry_points:
  "(quadrature_fails E (one_halo_integrand E k a) \<longrightarrow>
      fst (ccl_onehalo_matter_power E k a s) = NaN \<and>
      status (snd (ccl_onehalo_matter_power E k a s)) = Some CCL_ERROR_ONE_HALO_INT \<and>
      status_message (snd (ccl_onehalo_matter_power E k a s)) = msg_one_halo) \<and>
   (quadrature_fails E (two_halo_integrand E k a) \<or>
    quadrature_fails E (two_halo_integrand E (Fin 0) a) \<longrightarrow>
      fst (ccl_twohalo_matter_power E k a s) = NaN \<and>
      status (snd (ccl_twohalo_matter_power E k a s)) \<noteq> None) \<and>
   (quadrature_fails E (one_halo_integrand E k a) \<or>
    quadrature_fails E (two_halo_integrand E k a) \<or>
    quadrature_fails E (two_halo_integrand E (Fin 0) a) \<longrightarrow>
      fst (ccl_halomodel_matter_power E k a s) = NaN \<and>
      status (snd (ccl_halomodel_matter_power E k a s)) \<noteq> None) \<and>
   (status s \<noteq> None \<longrightarrow> status (snd (run_entry p E k a s)) \<noteq> None)"
proof -
  let ?f1 = "quadrature_fails E (one_halo_integrand E k a)"
  let ?f2 = "quadrature_fails E (two_halo_integrand E k a) \<or>
             quadrature_fails E (two_halo_integrand E (Fin 0) a)"
  have one: "fst (ccl_onehalo_matter_power E k a t) = NaN \<and>
             status (snd (ccl_onehalo_matter_power E k a t)) = Some CCL_ERROR_ONE_HALO_INT \<and>
             status_message (snd (ccl_onehalo_matter_power E k a t)) = msg_one_halo"
    if ?f1 for t
    using that
    by (simp add: quadrature_fails_def ccl_onehalo_matter_power_def one_halo_integral_fst
          one_halo_integral_status one_halo_integral_message)
  have two: "fst (ccl_twohalo_matter_power E k a t) = NaN \<and>
             status_set (snd (ccl_twohalo_matter_power E k a t))" if ?f2 for t
    using that twohalo_failure [of E k a t] by (simp add: quadrature_fails_def)
  have one_set: "status_set (snd (ccl_onehalo_matter_power E k a t))" if ?f1 for t
    using one [OF that, of t] by (simp add: status_set_def)
  have one_keeps: "status_set (snd (ccl_onehalo_matter_power E k a t))" if "status_set t" for t
    using that by (simp add: ccl_onehalo_matter_power_def one_halo_integral_latched)
  have total: "fst (ccl_halomodel_matter_power E k a s) = NaN \<and>
               status_set (snd (ccl_halomodel_matter_power E k a s))" if "?f1 \<or> ?f2"
  proof (cases ?f1)
    case True
    show ?thesis
      using one [OF True] one_set [OF True] twohalo_latched [of _ E k a]
      by (simp add: ccl_halomodel_matter_power_def Let_def split_def)
  next
    case False
    with that have f2: ?f2 by blast
    show ?thesis
      using two [OF f2] one_keeps
      by (simp add: ccl_halomodel_matter_power_def Let_def split_def)
  qed
  have latched: "status (snd (run_entry p E k a s)) \<noteq> None" if "status s \<noteq> None"
    using run_entry_latched [of s p E k a] that by (simp add: status_set_def)
  show ?thesis
    using one [of s] two [of s] total latched
    unfolding status_set_def by blast
qed

theorem quadrature_failure_at_entry_points_witness:
  "quadrature_fails env_fail (one_halo_integrand env_fail (Fin 0) (Fin 1)) \<and>
   quadrature_fails env_fail (two_halo_integrand env_fail (Fin 0) (Fin 1)) \<and>
   fst (ccl_onehalo_matter_power env_fail (Fin 0) (Fin 1) clean) = NaN \<and>
   status (snd (ccl_onehalo_matter_power env_fail (Fin 0) (Fin 1) clean)) =
     Some CCL_ERROR_ONE_HALO_INT \<and>
   fst (ccl_twohalo_matter_power env_fail (Fin 0) (Fin 1) clean) = NaN \<and>
   status (snd (ccl_twohalo_matter_power env_fail (Fin 0) (Fin 1) clean)) \<noteq> None \<and>
   fst (ccl_halomodel_matter_power env_fail (Fin 0) (Fin 1) clean) = NaN \<and>
   status (snd (ccl_halomodel_matter_power env_fail (Fin 0) (Fin 1) clean)) \<noteq> None \<and>
   status (clean\<lparr>status := Some CCL_ERROR_HALOWIN\<rparr>) \<noteq> None \<and>
   status (snd (run_entry Halo_model env0 (Fin 0) (Fin 1)
              (clean\<lparr>status := Some CCL_ERROR_HALOWIN\<rparr>))) \<noteq> None"
  using quadrature_failure_at_entry_points [of env_fail "Fin 0" "Fin 1" clean Halo_model]
    quadrature_failure_at_entry_points
      [of env0 "Fin 0" "Fin 1" "clean\<lparr>status := Some CCL_ERROR_HALOWIN\<rparr>" Halo_model]
  by (simp add: hm_defs env_defs quadrature_fails_def)

text \<open>
  The claim as first stated has the first failure propagated with no further computation,
  and an error raised inside an integrand reach the caller's status. In \<open>env_fail\<close> the
  quadrature of the two-halo routine fails first (the ninth event of thirty); the routine
  goes on to the second quadrature, the window functions and the linear power, and returns
  with the code and the message of the last failure, the linear power's. In \<open>env_mf\<close> the
  mass function fails inside the one-halo integrand: its message reaches the cosmology, and
  the caller's status is still 0. In \<open>env_nan\<close> the concentration fails with ModelMismatch
  inside the window function; at \<open>k = 0\<close> the profile transform does not use the
  concentration, and the two-halo routine returns a finite number with the status set.
\<close>

theorem fail_fast_counterexample:
  "take 9 (trace (snd (ccl_twohalo_matter_power env_fail (Fin 0) (Fin 1) clean))) =
     [Call_Dv_BryanNorman (Fin 1),
      Call_window_function (Fin 10000000000000) (Fin 0) (Fin 1) (Fin 178) ccl_nfw,
      Call_rho_x (Fin 1) ccl_species_m_label 1,
      Call_halo_concentration (Fin 10000000000000) (Fin 1) (Fin 178) ccl_duffy2008_virial,
      Call_Dv_BryanNorman (Fin 1),
      Call_Dv_BryanNorman (Fin 1),
      Call_massfunc (Fin 10000000000000) (Fin 1) (Fin 178),
      Call_halo_bias (Fin 10000000000000) (Fin 1) (Fin 178),
      Raised CCL_ERROR_TWO_HALO_INT] \<and>
   length (trace (snd (ccl_twohalo_matter_power env_fail (Fin 0) (Fin 1) clean))) = 30 \<and>
   last (trace (snd (ccl_twohalo_matter_power env_fail (Fin 0) (Fin 1) clean))) =
     Call_linear_matter_power (Fin 0) (Fin 1) \<and>
   status (snd (ccl_twohalo_matter_power env_fail (Fin 0) (Fin 1) clean)) =
     Some (CCL_ERROR_OTHER 1) \<and>
   status_message (snd (ccl_twohalo_matter_power env_fail (Fin 0) (Fin 1) clean)) =
     ''linear power failed'' \<and>
   status (snd (ccl_onehalo_matter_power env_mf (Fin 0) (Fin 1) clean)) = None \<and>
   status_message (snd (ccl_onehalo_matter_power env_mf (Fin 0) (Fin 1) clean)) =
     ''mass function failed'' \<and>
   ccl_massfunc env_mf (Fin 10000000000000) (Fin 1) (Fin 178) =
     (NaN, Some (CCL_ERROR_OTHER 2, ''mass function failed'')) \<and>
   fst (ccl_twohalo_matter_power env_nan (Fin 0) (Fin 1) clean) = Fin 5 \<and>
   status (snd (ccl_twohalo_matter_power env_nan (Fin 0) (Fin 1) clean)) =
     Some CCL_ERROR_CONC_DV"
  by (simp add: hm_defs env_defs)

end
